theory Spec2Isabelle
  imports Main
begin

section \<open>JavaScript values as the client reads them\<close>

text \<open>
  The declarations of the \<^verbatim>\<open>SMART\<close> namespace are not among the sources. The members the
  client reads are strings where they are there: the tokens, the header values, the
  resource type, the fields of an issue, the URL of a link. An object with such members
  (the token response, the request headers) is a map from member names to strings; a
  missing member is \<open>None\<close>, JavaScript's \<^verbatim>\<open>undefined\<close>.
\<close>

type_synonym js_object = "string \<rightharpoonup> string"

text \<open>The truthiness test of \<^verbatim>\<open>if (v)\<close> and \<^verbatim>\<open>!v\<close> on a string-or-undefined value:
  \<^verbatim>\<open>undefined\<close> and the empty string are falsy.\<close>

definition truthy :: "string option \<Rightarrow> bool" where
  "truthy v = (case v of None \<Rightarrow> False | Some s \<Rightarrow> s \<noteq> [])"

text \<open>A value inside a template literal: \<^verbatim>\<open>`${v}`\<close>.\<close>

definition template :: "string option \<Rightarrow> string" where
  "template v = (case v of None \<Rightarrow> ''undefined'' | Some s \<Rightarrow> s)"

text \<open>\<^verbatim>\<open>Array.prototype.join\<close>.\<close>

fun join :: "string list \<Rightarrow> string \<Rightarrow> string" where
  "join [] sep = []"
| "join [x] sep = x"
| "join (x # y # ys) sep = x @ sep @ join (y # ys) sep"

text \<open>
  \<^verbatim>\<open>s.replace(/\/?$/, "/")\<close>: the pattern has no \<^verbatim>\<open>g\<close> flag, so the leftmost match is
  replaced. At a position before the end the optional slash followed by the end of the
  input matches only when the rest of the string is exactly one slash; at the end the
  empty string matches.
\<close>

fun replace_trailing_slash :: "string \<Rightarrow> string" where
  "replace_trailing_slash [] = ''/''"
| "replace_trailing_slash (c # cs) =
     (if c = CHR ''/'' \<and> cs = [] then ''/'' else c # replace_trailing_slash cs)"

section \<open>Requests, responses and errors\<close>

record fhir_issue =
  severity :: "string option"
  code :: "string option"
  diagnostics :: "string option"

record bundle_link =
  relation :: "string option"
  link_url :: "string option"

text \<open>Bundle entries are opaque to the client; an entry stands for its JSON text.\<close>

type_synonym fhir_entry = string

text \<open>
  A response body is a JSON object: its string-valued members (among them
  \<^verbatim>\<open>resourceType\<close>, and the fields of a token response), and the three list-valued
  members the client reads.
\<close>

record body =
  members :: js_object
  issue :: "fhir_issue list option"
  entry :: "fhir_entry list option"
  link :: "bundle_link list option"

record response =
  status :: int
  rdata :: body

text \<open>The request body: either what \<^verbatim>\<open>querystring.stringify\<close> makes of a list of
  name-value pairs, or a payload of the caller.\<close>

datatype payload = FormEncoded "(string \<times> string) list" | Payload string

text \<open>\<^verbatim>\<open>AxiosRequestConfig\<close>, with the members the client touches; \<open>http_method\<close> is its
  member \<^verbatim>\<open>method\<close>.\<close>

record config =
  url :: "string option"
  http_method :: "string option"
  baseURL :: "string option"
  headers :: "js_object option"
  data :: "payload option"

text \<open>
  The message of an \<^verbatim>\<open>Error\<close> is a string of the source or an entry of the message
  table read by \<^verbatim>\<open>getErrorText\<close>; the table lives in \<^verbatim>\<open>./lib\<close>, so an entry stands for
  itself under its key.
\<close>

datatype message = Literal string | ErrorText string

text \<open>
  What a promise is rejected with: an \<^verbatim>\<open>Error\<close> made by the client, a \<^verbatim>\<open>TypeError\<close> of
  the runtime, or the error object of the transport, whose \<^verbatim>\<open>response\<close> member is present
  when the server answered.
\<close>

datatype js_error = Error message | TypeError | AxiosError "response option"

fun error_response :: "js_error \<Rightarrow> response option" where
  "error_response (AxiosError r) = r"
| "error_response _ = None"

section \<open>The transport\<close>

text \<open>
  The HTTP library answers a request description with a response or an error, and the
  world it talks to may change with every call. The client's view of the network also
  keeps the list of the requests dispatched so far.
\<close>

type_synonym 'w transport = "'w \<Rightarrow> config \<Rightarrow> (js_error + response) \<times> 'w"

record 'w net =
  world :: 'w
  sent :: "config list"

definition send :: "'w transport \<Rightarrow> 'w net \<Rightarrow> config \<Rightarrow> (js_error + response) \<times> 'w net" where
  "send T n c = (case T (world n) c of (r, w') \<Rightarrow> (r, \<lparr>world = w', sent = sent n @ [c]\<rparr>))"

section \<open>The client state\<close>

record client_state =
  serverUrl :: string
  tokenUri :: string
  authorizeUri :: "string option"
  scope :: string
  tokenResponse :: "js_object option"

text \<open>
  Modelled from the spec: \<^verbatim>\<open>getPath\<close> of \<^verbatim>\<open>./lib\<close> is not among the sources. It reads the
  member at a dotted path and yields \<^verbatim>\<open>undefined\<close> when a step of the path is missing.
  Here for the paths \<^verbatim>\<open>tokenResponse.<key>\<close> of the state; the paths
  \<^verbatim>\<open>response.data.resourceType\<close> and \<^verbatim>\<open>response.data.issue\<close> of an error are read off
  the response in \<open>rejection\<close> below.
\<close>

definition getPath_tokenResponse :: "client_state \<Rightarrow> string \<Rightarrow> string option" where
  "getPath_tokenResponse st key = (case tokenResponse st of None \<Rightarrow> None | Some tr \<Rightarrow> tr key)"

section \<open>Client.refresh\<close>

definition refresh_request :: "client_state \<Rightarrow> string \<Rightarrow> config" where
  "refresh_request st refreshToken =
     \<lparr>url = Some (tokenUri st),
      http_method = Some ''POST'',
      baseURL = None,
      headers = Some [''content-type'' \<mapsto> ''application/x-www-form-urlencoded''],
      data = Some (FormEncoded [(''grant_type'', ''refresh_token''),
                                (''refresh_token'', refreshToken)])\<rparr>"

definition no_refresh_token :: js_error where
  "no_refresh_token = Error (Literal ''Trying to refresh but there is no refresh token'')"

definition refresh ::
  "'w transport \<Rightarrow> client_state \<Rightarrow> 'w net \<Rightarrow> (js_error + body) \<times> client_state \<times> 'w net" where
  "refresh T st n =
     (case tokenResponse st of
        None \<Rightarrow> (Inl no_refresh_token, st, n)
      | Some tr \<Rightarrow>
          (case tr ''refresh_token'' of
             None \<Rightarrow> (Inl no_refresh_token, st, n)
           | Some refreshToken \<Rightarrow>
               if refreshToken = [] then (Inl no_refresh_token, st, n)
               else
                 (case send T n (refresh_request st refreshToken) of
                    (Inr r, n1) \<Rightarrow>
                      (Inr (rdata r),
                       st\<lparr>tokenResponse := Some (tr ++ members (rdata r))\<rparr>, n1)
                  | (Inl error, n1) \<Rightarrow>
                      (Inl error,
                       (case error_response error of
                          None \<Rightarrow> st
                        | Some resp \<Rightarrow>
                            if status resp = 401
                            then st\<lparr>tokenResponse := Some (tr(''refresh_token'' := None))\<rparr>
                            else st),
                       n1))))"

section \<open>Client.request\<close>

datatype request_input = Url string | Options config

definition empty_config :: config where
  "empty_config = \<lparr>url = None, http_method = None, baseURL = None, headers = None, data = None\<rparr>"

fun normalize :: "request_input \<Rightarrow> config" where
  "normalize (Url u) = empty_config\<lparr>url := Some u\<rparr>"
| "normalize (Options c) = c"

text \<open>Lines 48 to 56: the base address and the Authorization header are written into the
  options object.\<close>

definition prepare :: "client_state \<Rightarrow> config \<Rightarrow> config" where
  "prepare st options0 =
     (let options = options0\<lparr>baseURL := Some (replace_trailing_slash (serverUrl st))\<rparr>;
          accessToken = getPath_tokenResponse st ''access_token''
      in if truthy accessToken
         then options\<lparr>headers :=
                Some ((case headers options of None \<Rightarrow> Map.empty | Some h \<Rightarrow> h)
                      (''Authorization'' \<mapsto> ''Bearer '' @ template accessToken))\<rparr>
         else options)"

definition issue_line :: "fhir_issue \<Rightarrow> string" where
  "issue_line o' = template (severity o') @ '' '' @ template (code o') @ '' '' @
                   template (diagnostics o')"

text \<open>Lines 72 to 81: what the promise is rejected with when the server answered and no
  refresh is attempted. Reading \<^verbatim>\<open>length\<close> of an absent issue list is a \<^verbatim>\<open>TypeError\<close>.\<close>

definition rejection :: "js_error \<Rightarrow> response \<Rightarrow> js_error" where
  "rejection error resp =
     (let resourceType = members (rdata resp) ''resourceType'';
          issues = issue (rdata resp);
          body = rdata resp
      in if resourceType = Some ''OperationOutcome''
         then (case issues of
                 None \<Rightarrow> TypeError
               | Some is \<Rightarrow>
                   if length is \<noteq> 0
                   then (case issue body of
                           None \<Rightarrow> TypeError
                         | Some bis \<Rightarrow> Error (Literal (join (map issue_line bis) [CHR 0x0A])))
                   else error)
         else error)"

partial_function (option) request ::
  "'w transport \<Rightarrow> client_state \<Rightarrow> 'w net \<Rightarrow> request_input \<Rightarrow>
   ((js_error + response) \<times> config \<times> client_state \<times> 'w net) option" where
  "request T st n inp =
     (let options = prepare st (normalize inp) in
      case send T n options of
        (Inr r, n1) \<Rightarrow> Some (Inr r, options, st, n1)
      | (Inl error, n1) \<Rightarrow>
          (case error_response error of
             None \<Rightarrow> Some (Inl (Error (ErrorText ''no_fhir_response'')), options, st, n1)
           | Some resp \<Rightarrow>
               if status resp = 401 \<and> truthy (getPath_tokenResponse st ''refresh_token'')
               then (case refresh T st n1 of
                       (Inl e, st2, n2) \<Rightarrow> Some (Inl e, options, st2, n2)
                     | (Inr d, st2, n2) \<Rightarrow> request T st2 n2 (Options options))
               else Some (Inl (rejection error resp), options, st, n1)))"

section \<open>Client.getPages\<close>

text \<open>
  Modelled from the spec: \<^verbatim>\<open>getBundleURL\<close> of \<^verbatim>\<open>./lib\<close> is not among the sources. It scans
  the link list of the bundle for the first entry whose relation label equals the one
  asked for and yields its URL, and nothing when the bundle has no such link.
\<close>

fun find_link :: "bundle_link list \<Rightarrow> string \<Rightarrow> bundle_link option" where
  "find_link [] rel = None"
| "find_link (l # ls) rel = (if relation l = Some rel then Some l else find_link ls rel)"

definition getBundleURL :: "body \<Rightarrow> string \<Rightarrow> string option" where
  "getBundleURL bundle rel =
     (case link bundle of
        None \<Rightarrow> None
      | Some ls \<Rightarrow> (case find_link ls rel of None \<Rightarrow> None | Some l \<Rightarrow> link_url l))"

text \<open>
  \<open>getPages_config\<close> is \<^verbatim>\<open>getPages\<close> on an options object, which is what the recursion
  passes on; \<open>getPages\<close> turns a string argument into one first.
  The page counter is a JavaScript number; the model takes the integers. \<^verbatim>\<open>--maxPages\<close>
  decrements it and is truthy unless the new value is zero. The options object handed to
  \<^verbatim>\<open>request\<close> is the one that \<^verbatim>\<open>request\<close> writes into, so the next page is asked for with
  the options as \<^verbatim>\<open>request\<close> left them, under the next URL.
\<close>

partial_function (option) getPages_config ::
  "'w transport \<Rightarrow> client_state \<Rightarrow> 'w net \<Rightarrow> config \<Rightarrow> int \<Rightarrow> fhir_entry list \<Rightarrow>
   ((js_error + fhir_entry list) \<times> client_state \<times> 'w net) option" where
  "getPages_config T st n options maxPages result =
     (case request T st n (Options options) of
        None \<Rightarrow> None
      | Some (Inl e, options1, st1, n1) \<Rightarrow> Some (Inl e, st1, n1)
      | Some (Inr res, options1, st1, n1) \<Rightarrow>
          (let bundle = rdata res;
               result1 = result @ (case entry bundle of None \<Rightarrow> [] | Some es \<Rightarrow> es);
               maxPages1 = maxPages - 1
           in if maxPages1 \<noteq> 0
              then (let nextUrl = getBundleURL bundle ''next''
                    in if truthy nextUrl
                       then getPages_config T st1 n1 (options1\<lparr>url := nextUrl\<rparr>) maxPages1 result1
                       else Some (Inr result1, st1, n1))
              else Some (Inr result1, st1, n1)))"

definition getPages ::
  "'w transport \<Rightarrow> client_state \<Rightarrow> 'w net \<Rightarrow> request_input \<Rightarrow> int \<Rightarrow> fhir_entry list \<Rightarrow>
   ((js_error + fhir_entry list) \<times> client_state \<times> 'w net) option" where
  "getPages T st n options maxPages result =
     getPages_config T st n (normalize options) maxPages result"

section \<open>Example states and servers\<close>

text \<open>Concrete states of the client and concrete servers, at which the theorems below are
  evaluated.\<close>

definition open_state :: client_state where
  "open_state = \<lparr>serverUrl = ''http://a'', tokenUri = ''http://a/token'', authorizeUri = None,
                 scope = ''launch'', tokenResponse = None\<rparr>"

definition authorized_state :: client_state where
  "authorized_state =
     open_state\<lparr>tokenResponse := Some [''access_token'' \<mapsto> ''old'', ''refresh_token'' \<mapsto> ''r1'']\<rparr>"

definition access_only_state :: client_state where
  "access_only_state = open_state\<lparr>tokenResponse := Some [''access_token'' \<mapsto> ''old'']\<rparr>"

definition fresh_net :: "unit net" where
  "fresh_net = \<lparr>world = (), sent = []\<rparr>"

definition no_body :: body where
  "no_body = \<lparr>members = Map.empty, issue = None, entry = None, link = None\<rparr>"

definition unauthorized :: response where
  "unauthorized = \<lparr>status = 401, rdata = no_body\<rparr>"

definition token_reply :: response where
  "token_reply = \<lparr>status = 200, rdata = no_body\<lparr>members := [''access_token'' \<mapsto> ''new'']\<rparr>\<rparr>"

definition patient_reply :: response where
  "patient_reply =
     \<lparr>status = 200, rdata = no_body\<lparr>members := [''resourceType'' \<mapsto> ''Patient'']\<rparr>\<rparr>"

text \<open>A server whose token endpoint issues the access token \<open>new\<close> and which answers every
  other request that does not carry this token with 401.\<close>

definition renewing_server :: "unit transport" where
  "renewing_server w c =
     (if url c = Some ''http://a/token'' then (Inr token_reply, w)
      else if (case headers c of None \<Rightarrow> False
               | Some h \<Rightarrow> h ''Authorization'' = Some ''Bearer new'')
      then (Inr patient_reply, w)
      else (Inl (AxiosError (Some unauthorized)), w))"

text \<open>A server whose token endpoint issues tokens, and which answers every other request
  with 401 all the same.\<close>

definition stubborn_server :: "unit transport" where
  "stubborn_server w c =
     (if url c = Some ''http://a/token'' then (Inr token_reply, w)
      else (Inl (AxiosError (Some unauthorized)), w))"

text \<open>A server that answers every request, the token exchange included, with 401.\<close>

definition rejecting_server :: "unit transport" where
  "rejecting_server w c = (Inl (AxiosError (Some unauthorized)), w)"

text \<open>Servers that answer 400 with an OperationOutcome: one with the issue list
  \<^verbatim>\<open>[{severity:"error",code:"invalid",diagnostics:"bad param"}]\<close>, one without an issue
  list.\<close>

definition bad_param :: fhir_issue where
  "bad_param = \<lparr>severity = Some ''error'', code = Some ''invalid'',
                diagnostics = Some ''bad param''\<rparr>"

definition outcome_reply :: response where
  "outcome_reply =
     \<lparr>status = 400,
      rdata = no_body\<lparr>members := [''resourceType'' \<mapsto> ''OperationOutcome''],
                      issue := Some [bad_param]\<rparr>\<rparr>"

definition outcome_server :: "unit transport" where
  "outcome_server w c = (Inl (AxiosError (Some outcome_reply)), w)"

text \<open>A server that answers 400 with an OperationOutcome of three issues, the last one
  without diagnostics.\<close>

definition slow_query :: fhir_issue where
  "slow_query = \<lparr>severity = Some ''warning'', code = Some ''processing'',
                 diagnostics = Some ''slow query''\<rparr>"

definition no_details :: fhir_issue where
  "no_details = \<lparr>severity = Some ''fatal'', code = Some ''exception'', diagnostics = None\<rparr>"

definition several_issues_reply :: response where
  "several_issues_reply =
     \<lparr>status = 400,
      rdata = no_body\<lparr>members := [''resourceType'' \<mapsto> ''OperationOutcome''],
                      issue := Some [bad_param, slow_query, no_details]\<rparr>\<rparr>"

definition several_issues_server :: "unit transport" where
  "several_issues_server w c = (Inl (AxiosError (Some several_issues_reply)), w)"




definition bare_outcome_reply :: response where
  "bare_outcome_reply =
     \<lparr>status = 400, rdata = no_body\<lparr>members := [''resourceType'' \<mapsto> ''OperationOutcome'']\<rparr>\<rparr>"

definition bare_outcome_server :: "unit transport" where
  "bare_outcome_server w c = (Inl (AxiosError (Some bare_outcome_reply)), w)"

text \<open>Three linked pages: page 1 links to page 2, page 2 to page 3, page 3 has no next
  link.\<close>

definition page1 :: response where
  "page1 =
     \<lparr>status = 200,
      rdata = \<lparr>members = [''resourceType'' \<mapsto> ''Bundle''], issue = None,
               entry = Some [''a'', ''b''],
               link = Some [\<lparr>relation = Some ''self'', link_url = Some ''p1''\<rparr>,
                            \<lparr>relation = Some ''next'', link_url = Some ''p2''\<rparr>]\<rparr>\<rparr>"

definition page2 :: response where
  "page2 =
     \<lparr>status = 200,
      rdata = \<lparr>members = [''resourceType'' \<mapsto> ''Bundle''], issue = None,
               entry = Some [''c''],
               link = Some [\<lparr>relation = Some ''next'', link_url = Some ''p3''\<rparr>]\<rparr>\<rparr>"

definition page3 :: response where
  "page3 =
     \<lparr>status = 200,
      rdata = \<lparr>members = [''resourceType'' \<mapsto> ''Bundle''], issue = None,
               entry = Some [''d''],
               link = Some [\<lparr>relation = Some ''self'', link_url = Some ''p3''\<rparr>]\<rparr>\<rparr>"

definition paging_server :: "unit transport" where
  "paging_server w c =
     (if url c = Some ''p1'' then (Inr page1, w)
      else if url c = Some ''p2'' then (Inr page2, w)
      else if url c = Some ''p3'' then (Inr page3, w)
      else (Inl (AxiosError None), w))"

text \<open>A server whose only page links to itself.\<close>

definition looping_page :: response where
  "looping_page =
     \<lparr>status = 200,
      rdata = \<lparr>members = [''resourceType'' \<mapsto> ''Bundle''], issue = None,
               entry = Some [''a''],
               link = Some [\<lparr>relation = Some ''next'', link_url = Some ''p1''\<rparr>]\<rparr>\<rparr>"

definition looping_server :: "unit transport" where
  "looping_server w c = (Inr looping_page, w)"


text \<open>What a page walk yields, and the URLs of the requests it dispatched.\<close>

definition pages_result ::
  "((js_error + fhir_entry list) \<times> client_state \<times> unit net) option \<Rightarrow>
   ((js_error + fhir_entry list) \<times> string option list) option" where
  "pages_result r = map_option (\<lambda>(res, st, n). (res, map url (sent n))) r"

section \<open>One pass of request\<close>

lemma send_sent: "send T n c = (r, n1) \<Longrightarrow> sent n1 = sent n @ [c]"
  by (auto simp: send_def split: prod.splits)

lemma prepare_url: "url (prepare st c) = url c"
  by (simp add: prepare_def Let_def)

lemma baseURL_prepare:
  "baseURL (prepare st options) = Some (replace_trailing_slash (serverUrl st))"
  by (simp add: prepare_def Let_def)

lemma replace_trailing_slash_eq:
  "replace_trailing_slash s = (if s \<noteq> [] \<and> last s = CHR ''/'' then s else s @ ''/'')"
  by (induction s) auto

lemma request_resolved:
  "send T n (prepare st (normalize inp)) = (Inr r, n1) \<Longrightarrow>
   request T st n inp = Some (Inr r, prepare st (normalize inp), st, n1)"
  by (subst request.simps) (simp add: Let_def)

lemma request_no_response:
  "send T n (prepare st (normalize inp)) = (Inl error, n1) \<Longrightarrow>
   error_response error = None \<Longrightarrow>
   request T st n inp =
     Some (Inl (Error (ErrorText ''no_fhir_response'')), prepare st (normalize inp), st, n1)"
  by (subst request.simps) (simp add: Let_def)

lemma request_rejected:
  "send T n (prepare st (normalize inp)) = (Inl error, n1) \<Longrightarrow>
   error_response error = Some resp \<Longrightarrow>
   \<not> (status resp = 401 \<and> truthy (getPath_tokenResponse st ''refresh_token'')) \<Longrightarrow>
   request T st n inp =
     Some (Inl (rejection error resp), prepare st (normalize inp), st, n1)"
  by (subst request.simps) (auto simp add: Let_def)

lemma request_refresh:
  "send T n (prepare st (normalize inp)) = (Inl error, n1) \<Longrightarrow>
   error_response error = Some resp \<Longrightarrow> status resp = 401 \<Longrightarrow>
   truthy (getPath_tokenResponse st ''refresh_token'') \<Longrightarrow>
   request T st n inp =
     (case refresh T st n1 of
        (Inl e, st2, n2) \<Rightarrow> Some (Inl e, prepare st (normalize inp), st2, n2)
      | (Inr d, st2, n2) \<Rightarrow> request T st2 n2 (Options (prepare st (normalize inp))))"
  by (subst request.simps) (simp add: Let_def)

lemma request_normalize:
  "request T st n (Options (normalize inp)) = request T st n inp"
  by (rule trans [OF request.simps], rule sym, rule trans [OF request.simps]) simp

lemma getPages_config_failed:
  "request T st n (Options options) = Some (Inl e, options', st', n') \<Longrightarrow>
   getPages_config T st n options maxPages result = Some (Inl e, st', n')"
  by (subst getPages_config.simps) simp

lemma getPages_config_page:
  "request T st n (Options options) = Some (Inr res, options', st', n') \<Longrightarrow>
   getPages_config T st n options maxPages result =
     (if maxPages - 1 \<noteq> 0 \<and> truthy (getBundleURL (rdata res) ''next'')
      then getPages_config T st' n' (options'\<lparr>url := getBundleURL (rdata res) ''next''\<rparr>)
             (maxPages - 1)
             (result @ (case entry (rdata res) of None \<Rightarrow> [] | Some es \<Rightarrow> es))
      else Some (Inr (result @ (case entry (rdata res) of None \<Rightarrow> [] | Some es \<Rightarrow> es)),
                 st', n'))"
  by (subst getPages_config.simps) (simp add: Let_def)

lemma join_concat:
  "xs \<noteq> [] \<Longrightarrow> join xs sep = hd xs @ concat (map (\<lambda>x. sep @ x) (tl xs))"
  by (induction xs sep rule: join.induct) simp_all

lemma rejection_unchanged:
  "members (rdata resp) ''resourceType'' \<noteq> Some ''OperationOutcome'' \<or>
   issue (rdata resp) = Some [] \<Longrightarrow> rejection error resp = error"
  by (auto simp: rejection_def Let_def)

lemma refresh_sends_once:
  "getPath_tokenResponse st ''refresh_token'' = Some tok \<Longrightarrow> tok \<noteq> [] \<Longrightarrow>
   refresh T st n = (r, st2, n2) \<Longrightarrow> sent n2 = sent n @ [refresh_request st tok]"
  by (auto simp: refresh_def getPath_tokenResponse_def send_def
           split: option.splits prod.splits sum.splits if_splits)


section \<open>The base address\<close>

text \<open>
  C3, as the code has it: the effective base address written into the options is
  \<open>serverUrl\<close> itself when \<open>serverUrl\<close> already ends with a slash, and \<open>serverUrl\<close>
  followed by one slash otherwise. So it always ends with a slash, and a \<open>serverUrl\<close>
  supplied without a trailing slash gives the same base address as the same \<open>serverUrl\<close>
  with one slash appended. Nothing is collapsed: of several trailing slashes all are kept.
\<close>

theorem base_address_ends_with_slash:
  "baseURL (prepare st options) =
     Some (if serverUrl st \<noteq> [] \<and> last (serverUrl st) = CHR ''/'' then serverUrl st
           else serverUrl st @ ''/'')
   \<and> (\<exists>b. baseURL (prepare st options) = Some b \<and> b \<noteq> [] \<and> last b = CHR ''/'')
   \<and> (\<not> (s \<noteq> [] \<and> last s = CHR ''/'') \<longrightarrow>
        baseURL (prepare (st\<lparr>serverUrl := s\<rparr>) options) =
        baseURL (prepare (st\<lparr>serverUrl := s @ ''/''\<rparr>) options))"
  by (simp add: baseURL_prepare replace_trailing_slash_eq)

theorem base_address_ends_with_slash_witness:
  "baseURL (prepare open_state empty_config) = Some ''http://a/''
   \<and> \<not> (''http://a'' \<noteq> [] \<and> last ''http://a'' = CHR ''/'')
   \<and> baseURL (prepare (open_state\<lparr>serverUrl := ''http://a''\<rparr>) empty_config) =
       baseURL (prepare (open_state\<lparr>serverUrl := ''http://a'' @ ''/''\<rparr>) empty_config)"
  using base_address_ends_with_slash [of open_state empty_config "''http://a''"]
  by (simp add: open_state_def baseURL_prepare)

text \<open>
  C3 as stated fails: a \<open>serverUrl\<close> with two trailing slashes keeps both, so the base
  address does not carry exactly one trailing slash and differs from the one obtained
  for the same \<open>serverUrl\<close> without a trailing slash.
\<close>

theorem base_address_keeps_double_slash:
  "baseURL (prepare (open_state\<lparr>serverUrl := ''http://a//''\<rparr>) empty_config) =
     Some ''http://a//''
   \<and> baseURL (prepare (open_state\<lparr>serverUrl := ''http://a''\<rparr>) empty_config) =
     Some ''http://a/''
   \<and> baseURL (prepare (open_state\<lparr>serverUrl := ''http://a//''\<rparr>) empty_config) \<noteq>
     baseURL (prepare (open_state\<lparr>serverUrl := ''http://a''\<rparr>) empty_config)"
  by (simp add: baseURL_prepare)

section \<open>Properties of refresh\<close>



text \<open>
  C7: refresh fails at once, with the state and the network as they were, when
  \<open>tokenResponse\<close> or its \<open>refresh_token\<close> is absent (absent as the code tests it: missing or
  the empty string). Otherwise it dispatches exactly one request: a POST to \<open>tokenUri\<close>
  with the content type \<open>application/x-www-form-urlencoded\<close> and the form-encoded pairs
  \<open>grant_type = refresh_token\<close> and \<open>refresh_token = <token>\<close>. So no request is dispatched
  if and only if the refresh token is absent.
\<close>

theorem refresh_precondition_and_exchange:
  "(\<not> truthy (getPath_tokenResponse st ''refresh_token'') \<longrightarrow>
      refresh T st n = (Inl no_refresh_token, st, n))
   \<and> (\<forall>tok. getPath_tokenResponse st ''refresh_token'' = Some tok \<and> tok \<noteq> [] \<longrightarrow>
        sent (snd (snd (refresh T st n))) = sent n @
          [\<lparr>url = Some (tokenUri st), http_method = Some ''POST'', baseURL = None,
            headers = Some [''content-type'' \<mapsto> ''application/x-www-form-urlencoded''],
            data = Some (FormEncoded [(''grant_type'', ''refresh_token''),
                                      (''refresh_token'', tok)])\<rparr>])
   \<and> ((sent (snd (snd (refresh T st n))) = sent n) =
        (\<not> truthy (getPath_tokenResponse st ''refresh_token'')))"
  by (auto simp: refresh_def getPath_tokenResponse_def truthy_def send_def refresh_request_def
           split: option.splits if_splits prod.splits sum.splits)

theorem refresh_precondition_and_exchange_witness:
  "\<not> truthy (getPath_tokenResponse open_state ''refresh_token'')
   \<and> refresh rejecting_server open_state fresh_net = (Inl no_refresh_token, open_state, fresh_net)
   \<and> getPath_tokenResponse authorized_state ''refresh_token'' = Some ''r1'' \<and> ''r1'' \<noteq> []
   \<and> sent (snd (snd (refresh rejecting_server authorized_state fresh_net))) =
       [\<lparr>url = Some ''http://a/token'', http_method = Some ''POST'', baseURL = None,
         headers = Some [''content-type'' \<mapsto> ''application/x-www-form-urlencoded''],
         data = Some (FormEncoded [(''grant_type'', ''refresh_token''),
                                   (''refresh_token'', ''r1'')])\<rparr>]"
proof -
  have a: "\<not> truthy (getPath_tokenResponse open_state ''refresh_token'')"
    by (simp add: getPath_tokenResponse_def open_state_def truthy_def)
  have b: "getPath_tokenResponse authorized_state ''refresh_token'' = Some ''r1''"
    by (simp add: getPath_tokenResponse_def authorized_state_def)
  have c: "tokenUri authorized_state = ''http://a/token''" "sent fresh_net = []"
    by (simp_all add: authorized_state_def open_state_def fresh_net_def)
  from refresh_precondition_and_exchange [of open_state rejecting_server fresh_net] a
  have "refresh rejecting_server open_state fresh_net = (Inl no_refresh_token, open_state, fresh_net)"
    by blast
  moreover
  from refresh_precondition_and_exchange [of authorized_state rejecting_server fresh_net] b c
  have "sent (snd (snd (refresh rejecting_server authorized_state fresh_net))) =
       [\<lparr>url = Some ''http://a/token'', http_method = Some ''POST'', baseURL = None,
         headers = Some [''content-type'' \<mapsto> ''application/x-www-form-urlencoded''],
         data = Some (FormEncoded [(''grant_type'', ''refresh_token''),
                                   (''refresh_token'', ''r1'')])\<rparr>]"
    by simp
  ultimately show ?thesis using a b by simp
qed



section \<open>Client.request: refresh and replay\<close>

text \<open>
  C1: when the request is answered with status 401 while a refresh token is present,
  refresh is invoked and dispatches exactly one request, the token exchange. If refresh
  fails, its error is the outcome and nothing more is dispatched. If it succeeds, the
  outcome is that of \<open>request\<close> on the same options object, under the refreshed state;
  so the cycle repeats when the replay is answered with 401 again, and when the replay is
  answered with a response, three requests were dispatched in all: the original one, the
  token exchange, the replay.
\<close>

theorem request_unauthorized_refreshes_then_replays:
  assumes "send T n (prepare st (normalize inp)) = (Inl error, n1)"
    and "error_response error = Some resp"
    and "status resp = 401"
    and "truthy (getPath_tokenResponse st ''refresh_token'')"
  shows "\<exists>tok r st2 n2.
           getPath_tokenResponse st ''refresh_token'' = Some tok \<and>
           refresh T st n1 = (r, st2, n2) \<and>
           sent n2 = sent n @ [prepare st (normalize inp), refresh_request st tok] \<and>
           (case r of
              Inl e \<Rightarrow> request T st n inp = Some (Inl e, prepare st (normalize inp), st2, n2)
            | Inr d \<Rightarrow>
                request T st n inp = request T st2 n2 (Options (prepare st (normalize inp))) \<and>
                (\<forall>res n3.
                   send T n2 (prepare st2 (prepare st (normalize inp))) = (Inr res, n3) \<longrightarrow>
                   request T st n inp =
                     Some (Inr res, prepare st2 (prepare st (normalize inp)), st2, n3) \<and>
                   sent n3 = sent n @ [prepare st (normalize inp), refresh_request st tok,
                                       prepare st2 (prepare st (normalize inp))]))"
proof -
  from assms(4) obtain tok where
    tok: "getPath_tokenResponse st ''refresh_token'' = Some tok" "tok \<noteq> []"
    by (auto simp: truthy_def split: option.splits)
  obtain r st2 n2 where r: "refresh T st n1 = (r, st2, n2)"
    by (cases "refresh T st n1")
  have n1: "sent n1 = sent n @ [prepare st (normalize inp)]"
    using assms(1) by (rule send_sent)
  have n2: "sent n2 = sent n @ [prepare st (normalize inp), refresh_request st tok]"
    using refresh_sends_once [OF tok r] n1 by simp
  have req: "request T st n inp =
     (case refresh T st n1 of
        (Inl e, st2, n2) \<Rightarrow> Some (Inl e, prepare st (normalize inp), st2, n2)
      | (Inr d, st2, n2) \<Rightarrow> request T st2 n2 (Options (prepare st (normalize inp))))"
    using assms by (rule request_refresh)
  have "case r of
          Inl e \<Rightarrow> request T st n inp = Some (Inl e, prepare st (normalize inp), st2, n2)
        | Inr d \<Rightarrow>
            request T st n inp = request T st2 n2 (Options (prepare st (normalize inp))) \<and>
            (\<forall>res n3.
               send T n2 (prepare st2 (prepare st (normalize inp))) = (Inr res, n3) \<longrightarrow>
               request T st n inp =
                 Some (Inr res, prepare st2 (prepare st (normalize inp)), st2, n3) \<and>
               sent n3 = sent n @ [prepare st (normalize inp), refresh_request st tok,
                                   prepare st2 (prepare st (normalize inp))])"
  proof (cases r)
    case (Inl e)
    with req r show ?thesis by simp
  next
    case (Inr d)
    have replay: "request T st n inp =
                    request T st2 n2 (Options (prepare st (normalize inp)))"
      using req r Inr by simp
    have "request T st n inp =
            Some (Inr res, prepare st2 (prepare st (normalize inp)), st2, n3) \<and>
          sent n3 = sent n @ [prepare st (normalize inp), refresh_request st tok,
                              prepare st2 (prepare st (normalize inp))]"
      if s: "send T n2 (prepare st2 (prepare st (normalize inp))) = (Inr res, n3)"
      for res n3
    proof -
      have "request T st2 n2 (Options (prepare st (normalize inp))) =
              Some (Inr res, prepare st2 (prepare st (normalize inp)), st2, n3)"
        using request_resolved [of T n2 st2 "Options (prepare st (normalize inp))" res n3] s
        by simp
      moreover have "sent n3 = sent n2 @ [prepare st2 (prepare st (normalize inp))]"
        using s by (rule send_sent)
      ultimately show ?thesis using replay n2 by simp
    qed
    with replay Inr show ?thesis by simp
  qed
  with tok(1) r n2 show ?thesis by blast
qed

theorem request_unauthorized_refreshes_then_replays_witness:
  "send renewing_server fresh_net (prepare authorized_state (normalize (Url ''Patient''))) =
     (Inl (AxiosError (Some unauthorized)),
      \<lparr>world = (), sent = [prepare authorized_state (normalize (Url ''Patient''))]\<rparr>)
   \<and> error_response (AxiosError (Some unauthorized)) = Some unauthorized
   \<and> status unauthorized = 401
   \<and> truthy (getPath_tokenResponse authorized_state ''refresh_token'')
   \<and> (\<exists>st2 n3.
         request renewing_server authorized_state fresh_net (Url ''Patient'') =
           Some (Inr patient_reply,
                 prepare st2 (prepare authorized_state (normalize (Url ''Patient''))), st2, n3) \<and>
         getPath_tokenResponse st2 ''access_token'' = Some ''new'' \<and>
         map url (sent n3) = [Some ''Patient'', Some ''http://a/token'', Some ''Patient''])"
proof -
  let ?p = "prepare authorized_state (normalize (Url ''Patient''))"
  let ?n1 = "\<lparr>world = (), sent = [?p]\<rparr>"
  let ?st2 = "authorized_state\<lparr>tokenResponse :=
                Some ([''access_token'' \<mapsto> ''old'', ''refresh_token'' \<mapsto> ''r1''] ++
                      members (rdata token_reply))\<rparr>"
  let ?n2 = "\<lparr>world = (), sent = [?p, refresh_request authorized_state ''r1'']\<rparr>"
  let ?n3 = "\<lparr>world = (), sent = [?p, refresh_request authorized_state ''r1'', prepare ?st2 ?p]\<rparr>"
  have u0: "url (normalize (Url ''Patient'')) = Some ''Patient''"
    by (simp add: empty_config_def)
  have u: "url ?p = Some ''Patient''"
    by (simp add: prepare_url empty_config_def)
  have hp: "headers ?p = Some [''Authorization'' \<mapsto> ''Bearer old'']"
    by (simp add: prepare_def authorized_state_def open_state_def getPath_tokenResponse_def
          truthy_def template_def Let_def empty_config_def)
  have h1: "send renewing_server fresh_net ?p = (Inl (AxiosError (Some unauthorized)), ?n1)"
    by (simp add: send_def renewing_server_def fresh_net_def u hp del: normalize.simps)
  have h2: "error_response (AxiosError (Some unauthorized)) = Some unauthorized"
    by simp
  have h3: "status unauthorized = 401"
    by (simp add: unauthorized_def)
  have h4: "truthy (getPath_tokenResponse authorized_state ''refresh_token'')"
    by (simp add: getPath_tokenResponse_def authorized_state_def truthy_def)
  have rf: "refresh renewing_server authorized_state ?n1 = (Inr (rdata token_reply), ?st2, ?n2)"
    by (simp add: refresh_def authorized_state_def open_state_def send_def renewing_server_def
          refresh_request_def)
  have a2: "getPath_tokenResponse ?st2 ''access_token'' = Some ''new''"
    by (simp add: getPath_tokenResponse_def token_reply_def no_body_def)
  have hp2: "headers (prepare ?st2 ?p) = Some [''Authorization'' \<mapsto> ''Bearer new'']"
    by (simp add: prepare_def [of ?st2] a2 hp truthy_def template_def Let_def
          del: normalize.simps)
  have s3: "send renewing_server ?n2 (prepare ?st2 ?p) = (Inr patient_reply, ?n3)"
    by (simp add: send_def renewing_server_def prepare_url u0 hp2 del: normalize.simps)
  from request_unauthorized_refreshes_then_replays [OF h1 h2 h3 h4] rf
  have "\<forall>res n3. send renewing_server ?n2 (prepare ?st2 ?p) = (Inr res, n3) \<longrightarrow>
          request renewing_server authorized_state fresh_net (Url ''Patient'') =
            Some (Inr res, prepare ?st2 ?p, ?st2, n3) \<and>
          sent n3 = sent fresh_net @ [?p, refresh_request authorized_state ''r1'',
                                      prepare ?st2 ?p]"
    by auto
  with s3 have q:
    "request renewing_server authorized_state fresh_net (Url ''Patient'') =
       Some (Inr patient_reply, prepare ?st2 ?p, ?st2, ?n3)"
    by blast
  have m: "map url (sent ?n3) = [Some ''Patient'', Some ''http://a/token'', Some ''Patient'']"
    by (simp add: prepare_url u0 refresh_request_def authorized_state_def open_state_def
          del: normalize.simps)
  have e: "\<exists>st2 n3.
         request renewing_server authorized_state fresh_net (Url ''Patient'') =
           Some (Inr patient_reply, prepare st2 ?p, st2, n3) \<and>
         getPath_tokenResponse st2 ''access_token'' = Some ''new'' \<and>
         map url (sent n3) = [Some ''Patient'', Some ''http://a/token'', Some ''Patient'']"
    by (rule exI [of _ ?st2], rule exI [of _ ?n3]) (rule conjI [OF q conjI [OF a2 m]])
  show ?thesis
    by (rule conjI [OF h1 conjI [OF h2 conjI [OF h3 conjI [OF h4 e]]]])
qed

text \<open>
  The cycle has no overall cap: against a server that keeps issuing tokens and keeps
  answering 401, \<open>request\<close> never returns.
\<close>

lemma request_on_stubborn_server:
  assumes "request T st n inp = Some y"
  shows "\<not> (T = stubborn_server \<and> tokenUri st = ''http://a/token'' \<and>
            truthy (getPath_tokenResponse st ''refresh_token'') \<and>
            url (normalize inp) \<noteq> Some ''http://a/token'')"
proof (rule request.raw_induct
    [where P = "\<lambda>T st n inp y.
                  \<not> (T = stubborn_server \<and> tokenUri st = ''http://a/token'' \<and>
                     truthy (getPath_tokenResponse st ''refresh_token'') \<and>
                     url (normalize inp) \<noteq> Some ''http://a/token'')",
     OF _ assms])
  fix f :: "unit transport \<Rightarrow> client_state \<Rightarrow> unit net \<Rightarrow> request_input \<Rightarrow>
            ((js_error + response) \<times> config \<times> client_state \<times> unit net) option"
  fix T st n inp y
  assume IH: "\<And>T st n inp y. f T st n inp = Some y \<Longrightarrow>
              \<not> (T = stubborn_server \<and> tokenUri st = ''http://a/token'' \<and>
                 truthy (getPath_tokenResponse st ''refresh_token'') \<and>
                 url (normalize inp) \<noteq> Some ''http://a/token'')"
  assume body: "(let options = prepare st (normalize inp) in
      case send T n options of
        (Inl error, n1) \<Rightarrow>
          (case error_response error of
             None \<Rightarrow> Some (Inl (Error (ErrorText ''no_fhir_response'')), options, st, n1)
           | Some resp \<Rightarrow>
               if status resp = 401 \<and> truthy (getPath_tokenResponse st ''refresh_token'')
               then (case refresh T st n1 of
                       (Inl e, st2, n2) \<Rightarrow> Some (Inl e, options, st2, n2)
                     | (Inr d, st2, n2) \<Rightarrow> f T st2 n2 (Options options))
               else Some (Inl (rejection error resp), options, st, n1))
      | (Inr r, n1) \<Rightarrow> Some (Inr r, options, st, n1)) = Some y"
  show "\<not> (T = stubborn_server \<and> tokenUri st = ''http://a/token'' \<and>
           truthy (getPath_tokenResponse st ''refresh_token'') \<and>
           url (normalize inp) \<noteq> Some ''http://a/token'')"
  proof
    assume inv: "T = stubborn_server \<and> tokenUri st = ''http://a/token'' \<and>
                 truthy (getPath_tokenResponse st ''refresh_token'') \<and>
                 url (normalize inp) \<noteq> Some ''http://a/token''"
    then obtain tr tok where tr: "tokenResponse st = Some tr"
      "tr ''refresh_token'' = Some tok" "tok \<noteq> []"
      by (auto simp: truthy_def getPath_tokenResponse_def split: option.splits)
    let ?p = "prepare st (normalize inp)"
    let ?n1 = "\<lparr>world = (), sent = sent n @ [?p]\<rparr>"
    let ?st2 = "st\<lparr>tokenResponse := Some (tr ++ members (rdata token_reply))\<rparr>"
    let ?n2 = "\<lparr>world = (), sent = sent n @ [?p, refresh_request st tok]\<rparr>"
    have s: "send T n ?p = (Inl (AxiosError (Some unauthorized)), ?n1)"
      using inv by (simp add: send_def stubborn_server_def prepare_url)
    have r: "refresh T st ?n1 = (Inr (rdata token_reply), ?st2, ?n2)"
      using inv tr by (simp add: refresh_def send_def stubborn_server_def refresh_request_def)
    from body s r inv have "f T ?st2 ?n2 (Options ?p) = Some y"
      by (simp add: Let_def unauthorized_def)
    from IH [OF this] inv tr show False
      by (simp add: getPath_tokenResponse_def truthy_def prepare_url token_reply_def
            no_body_def map_add_def)
  qed
qed

lemma request_never_returns:
  "request stubborn_server authorized_state fresh_net (Url ''Patient'') = None"
proof (cases "request stubborn_server authorized_state fresh_net (Url ''Patient'')")
  case None
  then show ?thesis .
next
  case (Some y)
  from request_on_stubborn_server [OF this] show ?thesis
    by (simp add: authorized_state_def open_state_def getPath_tokenResponse_def truthy_def
          empty_config_def)
qed


section \<open>Without a refresh token\<close>

lemma request_without_refresh_token:
  assumes "\<not> truthy (getPath_tokenResponse st ''refresh_token'')"
  shows "\<exists>res n1. request T st n inp = Some (res, prepare st (normalize inp), st, n1) \<and>
           sent n1 = sent n @ [prepare st (normalize inp)]"
proof -
  obtain r n1 where s: "send T n (prepare st (normalize inp)) = (r, n1)"
    by (cases "send T n (prepare st (normalize inp))")
  then have n1: "sent n1 = sent n @ [prepare st (normalize inp)]"
    by (rule send_sent)
  show ?thesis
  proof (cases r)
    case (Inr resp)
    with s n1 show ?thesis by (simp add: request_resolved)
  next
    case (Inl error)
    show ?thesis
    proof (cases "error_response error")
      case None
      with s n1 Inl show ?thesis by (simp add: request_no_response)
    next
      case (Some resp)
      with s n1 Inl assms show ?thesis by (simp add: request_rejected)
    qed
  qed
qed

lemma getPages_config_without_refresh_token:
  assumes "getPages_config T st n options maxPages result = Some y"
  shows "\<not> truthy (getPath_tokenResponse st ''refresh_token'') \<longrightarrow> fst (snd y) = st"
proof (rule getPages_config.raw_induct
    [where P = "\<lambda>T st n options maxPages result y.
                  \<not> truthy (getPath_tokenResponse st ''refresh_token'') \<longrightarrow> fst (snd y) = st",
     OF _ assms])
  fix f :: "'a transport \<Rightarrow> client_state \<Rightarrow> 'a net \<Rightarrow> config \<Rightarrow> int \<Rightarrow> fhir_entry list \<Rightarrow>
            ((js_error + fhir_entry list) \<times> client_state \<times> 'a net) option"
  fix T st n options maxPages result y
  assume IH: "\<And>T st n options maxPages result y.
              f T st n options maxPages result = Some y \<Longrightarrow>
              \<not> truthy (getPath_tokenResponse st ''refresh_token'') \<longrightarrow> fst (snd y) = st"
  assume body: "(case request T st n (Options options) of
        None \<Rightarrow> None
      | Some (Inl e, options1, st1, n1) \<Rightarrow> Some (Inl e, st1, n1)
      | Some (Inr res, options1, st1, n1) \<Rightarrow>
          (let bundle = rdata res;
               result1 = result @ (case entry bundle of None \<Rightarrow> [] | Some es \<Rightarrow> es);
               maxPages1 = maxPages - 1
           in if maxPages1 \<noteq> 0
              then (let nextUrl = getBundleURL bundle ''next''
                    in if truthy nextUrl
                       then f T st1 n1 (options1\<lparr>url := nextUrl\<rparr>) maxPages1 result1
                       else Some (Inr result1, st1, n1))
              else Some (Inr result1, st1, n1))) = Some y"
  show "\<not> truthy (getPath_tokenResponse st ''refresh_token'') \<longrightarrow> fst (snd y) = st"
  proof
    assume nt: "\<not> truthy (getPath_tokenResponse st ''refresh_token'')"
    from request_without_refresh_token [OF nt, of T n "Options options"]
    obtain res n1 where
      r: "request T st n (Options options) = Some (res, prepare st options, st, n1)"
      by auto
    show "fst (snd y) = st"
    proof (cases "\<exists>o' m' r'. f T st n1 o' m' r' = Some y")
      case True
      then obtain o' m' r' where "f T st n1 o' m' r' = Some y"
        by blast
      from IH [OF this] nt show ?thesis by simp
    next
      case False
      with body r show ?thesis
        by (auto simp: Let_def split: sum.splits if_splits)
    qed
  qed
qed

text \<open>
  C6: while \<open>refresh_token\<close> is absent from \<open>tokenResponse\<close> (missing, or the empty string,
  which the code treats alike), no operation of the client changes the state, so none
  re-adds it: refresh is rejected with the state and the network as they were; \<open>request\<close>
  dispatches exactly one request and returns with the state unchanged, and when that
  request is answered with 401 the failure is what the caller gets (the original error
  when the body is not an OperationOutcome); and a page walk that returns leaves the
  state unchanged.
\<close>

theorem absent_refresh_token_stays_absent:
  assumes "\<not> truthy (getPath_tokenResponse st ''refresh_token'')"
  shows "refresh T st n = (Inl no_refresh_token, st, n)
    \<and> (\<exists>res n1. request T st n inp = Some (res, prepare st (normalize inp), st, n1) \<and>
                 sent n1 = sent n @ [prepare st (normalize inp)])
    \<and> (\<forall>error n1 resp.
          send T n (prepare st (normalize inp)) = (Inl error, n1) \<and>
          error_response error = Some resp \<and> status resp = 401 \<longrightarrow>
          request T st n inp =
            Some (Inl (rejection error resp), prepare st (normalize inp), st, n1) \<and>
          (members (rdata resp) ''resourceType'' \<noteq> Some ''OperationOutcome'' \<longrightarrow>
             rejection error resp = error))
    \<and> (\<forall>y. getPages T st n inp maxPages result = Some y \<longrightarrow> fst (snd y) = st)"
proof -
  have "refresh T st n = (Inl no_refresh_token, st, n)"
    using assms
    by (auto simp: refresh_def getPath_tokenResponse_def truthy_def split: option.splits)
  moreover have "\<exists>res n1. request T st n inp = Some (res, prepare st (normalize inp), st, n1) \<and>
                   sent n1 = sent n @ [prepare st (normalize inp)]"
    using assms by (rule request_without_refresh_token)
  moreover have "\<forall>error n1 resp.
          send T n (prepare st (normalize inp)) = (Inl error, n1) \<and>
          error_response error = Some resp \<and> status resp = 401 \<longrightarrow>
          request T st n inp =
            Some (Inl (rejection error resp), prepare st (normalize inp), st, n1) \<and>
          (members (rdata resp) ''resourceType'' \<noteq> Some ''OperationOutcome'' \<longrightarrow>
             rejection error resp = error)"
    using assms by (auto simp: request_rejected rejection_unchanged)
  moreover have "\<forall>y. getPages T st n inp maxPages result = Some y \<longrightarrow> fst (snd y) = st"
    using assms getPages_config_without_refresh_token [of T st n "normalize inp" maxPages result]
    by (simp add: getPages_def)
  ultimately show ?thesis by blast
qed

theorem absent_refresh_token_stays_absent_witness:
  "\<not> truthy (getPath_tokenResponse access_only_state ''refresh_token'')
   \<and> refresh rejecting_server access_only_state fresh_net =
       (Inl no_refresh_token, access_only_state, fresh_net)
   \<and> request rejecting_server access_only_state fresh_net (Url ''Patient'') =
       Some (Inl (AxiosError (Some unauthorized)),
             prepare access_only_state (normalize (Url ''Patient'')), access_only_state,
             \<lparr>world = (), sent = [prepare access_only_state (normalize (Url ''Patient''))]\<rparr>)
   \<and> getPages rejecting_server access_only_state fresh_net (Url ''Patient'') 100 [] =
       Some (Inl (AxiosError (Some unauthorized)), access_only_state,
             \<lparr>world = (), sent = [prepare access_only_state (normalize (Url ''Patient''))]\<rparr>)"
proof -
  let ?p = "prepare access_only_state (normalize (Url ''Patient''))"
  let ?n1 = "\<lparr>world = (), sent = [?p]\<rparr>"
  let ?e = "AxiosError (Some unauthorized)"
  have nt: "\<not> truthy (getPath_tokenResponse access_only_state ''refresh_token'')"
    by (simp add: getPath_tokenResponse_def access_only_state_def truthy_def)
  note inst = absent_refresh_token_stays_absent
    [OF nt, of rejecting_server fresh_net "Url ''Patient''" 100 "[]"]
  have s: "send rejecting_server fresh_net ?p = (Inl ?e, ?n1)"
    by (simp add: send_def rejecting_server_def fresh_net_def)
  have e: "error_response ?e = Some unauthorized" "status unauthorized = 401"
    "members (rdata unauthorized) ''resourceType'' \<noteq> Some ''OperationOutcome''"
    by (simp_all add: unauthorized_def no_body_def)
  from inst have a: "refresh rejecting_server access_only_state fresh_net =
                      (Inl no_refresh_token, access_only_state, fresh_net)"
    by (rule conjunct1)
  from inst s e have b: "request rejecting_server access_only_state fresh_net (Url ''Patient'') =
                          Some (Inl ?e, ?p, access_only_state, ?n1)"
    by auto
  have "request rejecting_server access_only_state fresh_net
          (Options (normalize (Url ''Patient''))) = Some (Inl ?e, ?p, access_only_state, ?n1)"
    using b by (simp only: request_normalize)
  then have c: "getPages rejecting_server access_only_state fresh_net (Url ''Patient'') 100 [] =
                  Some (Inl ?e, access_only_state, ?n1)"
    unfolding getPages_def by (rule getPages_config_failed)
  show ?thesis
    by (rule conjI [OF nt conjI [OF a conjI [OF b c]]])
qed

section \<open>Client.request: failures\<close>

text \<open>
  C8: when the request fails with a response whose body has the resource type
  \<open>OperationOutcome\<close> and a non-empty issue list, and the recovery by refresh does not
  apply, the outcome is an \<open>Error\<close> whose message is the concatenation of one line per
  issue, in the order of the list, a newline before every line but the first: each line
  is the severity, the code and the diagnostics of the issue as a template literal prints
  them (a string as it is, an absent field as \<open>undefined\<close>), separated by single spaces.
  For the one issue with severity \<open>error\<close>, code \<open>invalid\<close> and diagnostics \<open>bad param\<close>
  the message is \<open>error invalid bad param\<close>.
\<close>

theorem operation_outcome_message:
  assumes "send T n (prepare st (normalize inp)) = (Inl error, n1)"
    and "error_response error = Some resp"
    and "\<not> (status resp = 401 \<and> truthy (getPath_tokenResponse st ''refresh_token''))"
    and "members (rdata resp) ''resourceType'' = Some ''OperationOutcome''"
    and "issue (rdata resp) = Some iss"
    and "iss \<noteq> []"
  shows "request T st n inp =
           Some (Inl (Error (Literal
                   ((template (severity (hd iss)) @ '' '' @ template (code (hd iss)) @ '' '' @
                     template (diagnostics (hd iss))) @
                    concat (map (\<lambda>o'. [CHR 0x0A] @ template (severity o') @ '' '' @
                                       template (code o') @ '' '' @ template (diagnostics o'))
                                (tl iss))))),
                 prepare st (normalize inp), st, n1)
    \<and> (\<forall>s. template (Some s) = s) \<and> template None = ''undefined''
    \<and> (\<forall>s c d. issue_line \<lparr>severity = Some s, code = Some c, diagnostics = Some d\<rparr> =
                  s @ '' '' @ c @ '' '' @ d)
    \<and> join (map issue_line [\<lparr>severity = Some ''error'', code = Some ''invalid'',
                              diagnostics = Some ''bad param''\<rparr>]) [CHR 0x0A] =
        ''error invalid bad param''"
proof -
  have "rejection error resp = Error (Literal (join (map issue_line iss) [CHR 0x0A]))"
    using assms(4-6) by (simp add: rejection_def Let_def)
  moreover have "join (map issue_line iss) [CHR 0x0A] =
      (template (severity (hd iss)) @ '' '' @ template (code (hd iss)) @ '' '' @
       template (diagnostics (hd iss))) @
      concat (map (\<lambda>o'. [CHR 0x0A] @ template (severity o') @ '' '' @
                         template (code o') @ '' '' @ template (diagnostics o'))
                  (tl iss))"
    using assms(6)
    by (simp add: join_concat hd_map map_tl comp_def issue_line_def)
  ultimately have "request T st n inp =
           Some (Inl (Error (Literal
                   ((template (severity (hd iss)) @ '' '' @ template (code (hd iss)) @ '' '' @
                     template (diagnostics (hd iss))) @
                    concat (map (\<lambda>o'. [CHR 0x0A] @ template (severity o') @ '' '' @
                                       template (code o') @ '' '' @ template (diagnostics o'))
                                (tl iss))))),
                 prepare st (normalize inp), st, n1)"
    using request_rejected [OF assms(1-3)] by simp
  moreover have "(\<forall>s. template (Some s) = s) \<and> template None = ''undefined''"
    by (simp add: template_def)
  moreover have
    "\<forall>s c d. issue_line \<lparr>severity = Some s, code = Some c, diagnostics = Some d\<rparr> =
               s @ '' '' @ c @ '' '' @ d"
    by (simp add: issue_line_def template_def)
  moreover have
    "join (map issue_line [\<lparr>severity = Some ''error'', code = Some ''invalid'',
                            diagnostics = Some ''bad param''\<rparr>]) [CHR 0x0A] =
       ''error invalid bad param''"
    by (simp add: issue_line_def template_def)
  ultimately show ?thesis by blast
qed

theorem operation_outcome_message_witness:
  "send outcome_server fresh_net (prepare open_state (normalize (Url ''Patient''))) =
     (Inl (AxiosError (Some outcome_reply)),
      \<lparr>world = (), sent = [prepare open_state (normalize (Url ''Patient''))]\<rparr>)
   \<and> error_response (AxiosError (Some outcome_reply)) = Some outcome_reply
   \<and> \<not> (status outcome_reply = 401 \<and>
          truthy (getPath_tokenResponse open_state ''refresh_token''))
   \<and> members (rdata outcome_reply) ''resourceType'' = Some ''OperationOutcome''
   \<and> issue (rdata outcome_reply) = Some [bad_param] \<and> [bad_param] \<noteq> []
   \<and> request outcome_server open_state fresh_net (Url ''Patient'') =
       Some (Inl (Error (Literal ''error invalid bad param'')),
             prepare open_state (normalize (Url ''Patient'')), open_state,
             \<lparr>world = (), sent = [prepare open_state (normalize (Url ''Patient''))]\<rparr>)
   \<and> issue (rdata several_issues_reply) = Some [bad_param, slow_query, no_details]
   \<and> request several_issues_server open_state fresh_net (Url ''Patient'') =
       Some (Inl (Error (Literal (''error invalid bad param'' @ [CHR 0x0A] @
                                  ''warning processing slow query'' @ [CHR 0x0A] @
                                  ''fatal exception undefined''))),
             prepare open_state (normalize (Url ''Patient'')), open_state,
             \<lparr>world = (), sent = [prepare open_state (normalize (Url ''Patient''))]\<rparr>)"
proof -
  let ?p = "prepare open_state (normalize (Url ''Patient''))"
  have h1: "send outcome_server fresh_net ?p =
              (Inl (AxiosError (Some outcome_reply)), \<lparr>world = (), sent = [?p]\<rparr>)"
    by (simp add: send_def outcome_server_def fresh_net_def)
  have h2: "error_response (AxiosError (Some outcome_reply)) = Some outcome_reply"
    by simp
  have h3: "\<not> (status outcome_reply = 401 \<and>
               truthy (getPath_tokenResponse open_state ''refresh_token''))"
    by (simp add: outcome_reply_def)
  have h4: "members (rdata outcome_reply) ''resourceType'' = Some ''OperationOutcome''"
    by (simp add: outcome_reply_def no_body_def)
  have h5: "issue (rdata outcome_reply) = Some [bad_param]"
    by (simp add: outcome_reply_def no_body_def)
  have h6: "[bad_param] \<noteq> []"
    by simp
  have m: "(template (severity (hd [bad_param])) @ '' '' @ template (code (hd [bad_param])) @
            '' '' @ template (diagnostics (hd [bad_param]))) @
           concat (map (\<lambda>o'. [CHR 0x0A] @ template (severity o') @ '' '' @
                              template (code o') @ '' '' @ template (diagnostics o'))
                       (tl [bad_param])) = ''error invalid bad param''"
    by (simp add: template_def bad_param_def)
  from operation_outcome_message [OF h1 h2 h3 h4 h5 h6]
  have q: "request outcome_server open_state fresh_net (Url ''Patient'') =
       Some (Inl (Error (Literal ''error invalid bad param'')), ?p, open_state,
             \<lparr>world = (), sent = [?p]\<rparr>)"
    unfolding m by (rule conjunct1)
  have k1: "send several_issues_server fresh_net ?p =
              (Inl (AxiosError (Some several_issues_reply)), \<lparr>world = (), sent = [?p]\<rparr>)"
    by (simp add: send_def several_issues_server_def fresh_net_def)
  have k2: "error_response (AxiosError (Some several_issues_reply)) = Some several_issues_reply"
    by simp
  have k3: "\<not> (status several_issues_reply = 401 \<and>
               truthy (getPath_tokenResponse open_state ''refresh_token''))"
    by (simp add: several_issues_reply_def)
  have k4: "members (rdata several_issues_reply) ''resourceType'' = Some ''OperationOutcome''"
    by (simp add: several_issues_reply_def no_body_def)
  have k5: "issue (rdata several_issues_reply) = Some [bad_param, slow_query, no_details]"
    by (simp add: several_issues_reply_def no_body_def)
  have k6: "[bad_param, slow_query, no_details] \<noteq> []"
    by simp
  have m3: "(template (severity (hd [bad_param, slow_query, no_details])) @ '' '' @
             template (code (hd [bad_param, slow_query, no_details])) @ '' '' @
             template (diagnostics (hd [bad_param, slow_query, no_details]))) @
           concat (map (\<lambda>o'. [CHR 0x0A] @ template (severity o') @ '' '' @
                              template (code o') @ '' '' @ template (diagnostics o'))
                       (tl [bad_param, slow_query, no_details])) =
           ''error invalid bad param'' @ [CHR 0x0A] @ ''warning processing slow query'' @
           [CHR 0x0A] @ ''fatal exception undefined''"
    by (simp add: template_def bad_param_def slow_query_def no_details_def)
  from operation_outcome_message [OF k1 k2 k3 k4 k5 k6]
  have q3: "request several_issues_server open_state fresh_net (Url ''Patient'') =
       Some (Inl (Error (Literal (''error invalid bad param'' @ [CHR 0x0A] @
                                  ''warning processing slow query'' @ [CHR 0x0A] @
                                  ''fatal exception undefined''))), ?p, open_state,
             \<lparr>world = (), sent = [?p]\<rparr>)"
    unfolding m3 by (rule conjunct1)
  show ?thesis
    by (rule conjI [OF h1 conjI [OF h2 conjI [OF h3 conjI [OF h4 conjI [OF h5 conjI [OF h6
          conjI [OF q conjI [OF k5 q3]]]]]]]])
qed

section \<open>The Authorization header\<close>



section \<open>Failures that are passed on\<close>

text \<open>
  A failure with a response that is neither recovered by refresh nor an OperationOutcome
  with issues is passed on unchanged when the body is not an OperationOutcome or its
  issue list is there and empty; a failure without a response becomes the fixed error of
  the message table.
\<close>

lemma request_failure_propagates:
  assumes "send T n (prepare st (normalize inp)) = (Inl error, n1)"
    and "error_response error = Some resp"
    and "\<not> (status resp = 401 \<and> truthy (getPath_tokenResponse st ''refresh_token''))"
    and "members (rdata resp) ''resourceType'' \<noteq> Some ''OperationOutcome'' \<or>
         issue (rdata resp) = Some []"
  shows "request T st n inp = Some (Inl error, prepare st (normalize inp), st, n1)"
  using request_rejected [OF assms(1-3)] rejection_unchanged [OF assms(4)] by simp

text \<open>
  C9 at a body whose resource type is \<open>OperationOutcome\<close> and whose issue list is absent:
  the code reads the length of the absent list, so the outcome is a \<open>TypeError\<close> and not
  the error object the transport failed with.
\<close>

theorem bare_operation_outcome_type_error:
  "request bare_outcome_server open_state fresh_net (Url ''Patient'') =
     Some (Inl TypeError, prepare open_state (normalize (Url ''Patient'')), open_state,
           \<lparr>world = (), sent = [prepare open_state (normalize (Url ''Patient''))]\<rparr>)
   \<and> TypeError \<noteq> AxiosError (Some bare_outcome_reply)"
proof -
  let ?p = "prepare open_state (normalize (Url ''Patient''))"
  have s: "send bare_outcome_server fresh_net ?p =
             (Inl (AxiosError (Some bare_outcome_reply)), \<lparr>world = (), sent = [?p]\<rparr>)"
    by (simp add: send_def bare_outcome_server_def fresh_net_def)
  have r: "rejection (AxiosError (Some bare_outcome_reply)) bare_outcome_reply = TypeError"
    by (simp add: rejection_def bare_outcome_reply_def no_body_def)
  have "\<not> (status bare_outcome_reply = 401 \<and>
            truthy (getPath_tokenResponse open_state ''refresh_token''))"
    by (simp add: bare_outcome_reply_def)
  with request_rejected [OF s, of bare_outcome_reply] r show ?thesis
    by simp
qed

section \<open>Walking pages\<close>

text \<open>
  Without a refresh token every request returns after one dispatch, and a page walk under
  a positive cap returns after at most that many requests, with the state unchanged.
\<close>

lemma getPages_config_positive_cap:
  assumes nt: "\<not> truthy (getPath_tokenResponse st ''refresh_token'')"
  shows "0 < m \<Longrightarrow> nat m = k \<Longrightarrow>
         \<exists>res n'. getPages_config T st n c m r = Some (res, st, n') \<and>
                   length (sent n') \<le> length (sent n) + k"
proof (induction k arbitrary: m n c r)
  case 0
  then show ?case by simp
next
  case (Suc k)
  from request_without_refresh_token [OF nt, of T n "Options c"]
  obtain res n1 where rq: "request T st n (Options c) = Some (res, prepare st c, st, n1)"
    and s1: "sent n1 = sent n @ [prepare st c]"
    by auto
  show ?case
  proof (cases res)
    case (Inl e)
    with rq have "getPages_config T st n c m r = Some (Inl e, st, n1)"
      by (simp add: getPages_config_failed)
    with s1 show ?thesis by simp
  next
    case (Inr resp)
    note page = getPages_config_page [OF rq [unfolded Inr], of m r]
    show ?thesis
    proof (cases "m - 1 \<noteq> 0 \<and> truthy (getBundleURL (rdata resp) ''next'')")
      case True
      with Suc.prems have "0 < m - 1" "nat (m - 1) = k"
        by simp_all
      from Suc.IH [OF this, of n1 "(prepare st c)\<lparr>url := getBundleURL (rdata resp) ''next''\<rparr>"
          "r @ (case entry (rdata resp) of None \<Rightarrow> [] | Some es \<Rightarrow> es)"]
      obtain res' n' where
        "getPages_config T st n1 ((prepare st c)\<lparr>url := getBundleURL (rdata resp) ''next''\<rparr>)
           (m - 1) (r @ (case entry (rdata resp) of None \<Rightarrow> [] | Some es \<Rightarrow> es)) =
         Some (res', st, n')" "length (sent n') \<le> length (sent n1) + k"
        by blast
      with page True s1 show ?thesis by simp
    next
      case False
      with page s1 show ?thesis by auto
    qed
  qed
qed

lemma paging_p1:
  "url c = Some ''p1'' \<Longrightarrow> request paging_server st n (Options c) =
     Some (Inr page1, prepare st c, st, \<lparr>world = (), sent = sent n @ [prepare st c]\<rparr>)"
  by (subst request.simps) (simp add: Let_def send_def paging_server_def prepare_url)

lemma paging_p2:
  "url c = Some ''p2'' \<Longrightarrow> request paging_server st n (Options c) =
     Some (Inr page2, prepare st c, st, \<lparr>world = (), sent = sent n @ [prepare st c]\<rparr>)"
  by (subst request.simps) (simp add: Let_def send_def paging_server_def prepare_url)

lemma paging_p3:
  "url c = Some ''p3'' \<Longrightarrow> request paging_server st n (Options c) =
     Some (Inr page3, prepare st c, st, \<lparr>world = (), sent = sent n @ [prepare st c]\<rparr>)"
  by (subst request.simps) (simp add: Let_def send_def paging_server_def prepare_url)

lemma next_links:
  "getBundleURL (rdata page1) ''next'' = Some ''p2''"
  "getBundleURL (rdata page2) ''next'' = Some ''p3''"
  "getBundleURL (rdata page3) ''next'' = None"
  by (simp_all add: getBundleURL_def page1_def page2_def page3_def)

lemma page_entries:
  "entry (rdata page1) = Some [''a'', ''b'']"
  "entry (rdata page2) = Some [''c'']"
  "entry (rdata page3) = Some [''d'']"
  by (simp_all add: page1_def page2_def page3_def)

lemma walk_from_p3:
  "url c = Some ''p3'' \<Longrightarrow> getPages_config paging_server st n c m result =
     Some (Inr (result @ [''d'']), st, \<lparr>world = (), sent = sent n @ [prepare st c]\<rparr>)"
  using getPages_config_page [OF paging_p3, of c st n m result]
  by (simp add: next_links page_entries truthy_def)

lemma walk_from_p2:
  "url c = Some ''p2'' \<Longrightarrow> getPages_config paging_server st n c m result =
     (if m - 1 \<noteq> 0
      then Some (Inr (result @ [''c'', ''d'']), st,
                 \<lparr>world = (),
                  sent = sent n @ [prepare st c,
                                   prepare st ((prepare st c)\<lparr>url := Some ''p3''\<rparr>)]\<rparr>)
      else Some (Inr (result @ [''c'']), st, \<lparr>world = (), sent = sent n @ [prepare st c]\<rparr>))"
  using getPages_config_page [OF paging_p2, of c st n m result]
  by (simp add: next_links page_entries truthy_def walk_from_p3 prepare_url)

lemma walk_from_p1:
  "url c = Some ''p1'' \<Longrightarrow> getPages_config paging_server st n c m result =
     (if m - 1 \<noteq> 0
      then (if m - 2 \<noteq> 0
            then Some (Inr (result @ [''a'', ''b'', ''c'', ''d'']), st,
                       \<lparr>world = (),
                        sent = sent n @
                          [prepare st c, prepare st ((prepare st c)\<lparr>url := Some ''p2''\<rparr>),
                           prepare st ((prepare st ((prepare st c)\<lparr>url := Some ''p2''\<rparr>))
                                       \<lparr>url := Some ''p3''\<rparr>)]\<rparr>)
            else Some (Inr (result @ [''a'', ''b'', ''c'']), st,
                       \<lparr>world = (),
                        sent = sent n @
                          [prepare st c, prepare st ((prepare st c)\<lparr>url := Some ''p2''\<rparr>)]\<rparr>))
      else Some (Inr (result @ [''a'', ''b'']), st,
                 \<lparr>world = (), sent = sent n @ [prepare st c]\<rparr>))"
  using getPages_config_page [OF paging_p1, of c st n m result]
  by (simp add: next_links page_entries truthy_def walk_from_p2 prepare_url)

text \<open>Over the three linked pages a cap of 100 yields the entries of all three pages in
  order, a cap of 2 those of pages 1 and 2, a cap of 1 those of page 1.\<close>

lemma getPages_cap_100:
  "pages_result (getPages paging_server open_state fresh_net (Url ''p1'') 100 []) =
     Some (Inr [''a'', ''b'', ''c'', ''d''], [Some ''p1'', Some ''p2'', Some ''p3''])"
  by (simp add: getPages_def walk_from_p1 empty_config_def fresh_net_def pages_result_def
        prepare_url)

lemma getPages_cap_2:
  "pages_result (getPages paging_server open_state fresh_net (Url ''p1'') 2 []) =
     Some (Inr [''a'', ''b'', ''c''], [Some ''p1'', Some ''p2''])"
  by (simp add: getPages_def walk_from_p1 empty_config_def fresh_net_def pages_result_def
        prepare_url)

lemma getPages_cap_1:
  "pages_result (getPages paging_server open_state fresh_net (Url ''p1'') 1 []) =
     Some (Inr [''a'', ''b''], [Some ''p1''])"
  by (simp add: getPages_def walk_from_p1 empty_config_def fresh_net_def pages_result_def
        prepare_url)

text \<open>
  C2 at a cap of 0: the counter is decremented to -1 after the first page, which is not
  zero, so the walk goes on and fetches pages 2 and 3 as well. The same holds for every
  negative cap.
\<close>

theorem getPages_cap_0_walks_all_pages:
  "pages_result (getPages paging_server open_state fresh_net (Url ''p1'') 0 []) =
     Some (Inr [''a'', ''b'', ''c'', ''d''], [Some ''p1'', Some ''p2'', Some ''p3''])"
  by (simp add: getPages_def walk_from_p1 empty_config_def fresh_net_def pages_result_def
        prepare_url)

lemma getPages_negative_cap:
  "m < 0 \<Longrightarrow>
   pages_result (getPages paging_server open_state fresh_net (Url ''p1'') m []) =
     Some (Inr [''a'', ''b'', ''c'', ''d''], [Some ''p1'', Some ''p2'', Some ''p3''])"
  by (simp add: getPages_def walk_from_p1 empty_config_def fresh_net_def pages_result_def
        prepare_url)

text \<open>Against a server whose page links to itself, the walk under a cap of 0 (or less)
  never returns.\<close>

lemma looping_request:
  "request looping_server st n (Options c) =
     Some (Inr looping_page, prepare st c, st, \<lparr>world = (), sent = sent n @ [prepare st c]\<rparr>)"
  by (subst request.simps) (simp add: Let_def send_def looping_server_def)

lemma getPages_on_looping_server:
  assumes "getPages_config T st n c m r = Some y"
  shows "\<not> (T = looping_server \<and> m \<le> 0)"
proof (rule getPages_config.raw_induct
    [where P = "\<lambda>T st n c m r y. \<not> (T = looping_server \<and> m \<le> 0)", OF _ assms])
  fix f :: "unit transport \<Rightarrow> client_state \<Rightarrow> unit net \<Rightarrow> config \<Rightarrow> int \<Rightarrow> fhir_entry list \<Rightarrow>
            ((js_error + fhir_entry list) \<times> client_state \<times> unit net) option"
  fix T st n options maxPages result y
  assume IH: "\<And>T st n options maxPages result y.
              f T st n options maxPages result = Some y \<Longrightarrow>
              \<not> (T = looping_server \<and> maxPages \<le> 0)"
  assume body: "(case request T st n (Options options) of
        None \<Rightarrow> None
      | Some (Inl e, options1, st1, n1) \<Rightarrow> Some (Inl e, st1, n1)
      | Some (Inr res, options1, st1, n1) \<Rightarrow>
          (let bundle = rdata res;
               result1 = result @ (case entry bundle of None \<Rightarrow> [] | Some es \<Rightarrow> es);
               maxPages1 = maxPages - 1
           in if maxPages1 \<noteq> 0
              then (let nextUrl = getBundleURL bundle ''next''
                    in if truthy nextUrl
                       then f T st1 n1 (options1\<lparr>url := nextUrl\<rparr>) maxPages1 result1
                       else Some (Inr result1, st1, n1))
              else Some (Inr result1, st1, n1))) = Some y"
  show "\<not> (T = looping_server \<and> maxPages \<le> 0)"
  proof
    assume a: "T = looping_server \<and> maxPages \<le> 0"
    have nx: "getBundleURL (rdata looping_page) ''next'' = Some ''p1''"
      by (simp add: getBundleURL_def looping_page_def)
    from body a have "\<exists>o' n' r'. f T st n' o' (maxPages - 1) r' = Some y"
      by (auto simp: looping_request Let_def nx truthy_def)
    then obtain o' n' r' where "f T st n' o' (maxPages - 1) r' = Some y" by blast
    from IH [OF this] a show False by simp
  qed
qed

lemma getPages_cap_0_never_returns:
  "getPages looping_server open_state fresh_net (Url ''p1'') 0 [] = None"
proof (cases "getPages looping_server open_state fresh_net (Url ''p1'') 0 []")
  case None
  then show ?thesis .
next
  case (Some y)
  then have "getPages_config looping_server open_state fresh_net (normalize (Url ''p1'')) 0 [] = Some y"
    by (simp add: getPages_def)
  from getPages_on_looping_server [OF this] show ?thesis by simp
qed

end
